theory Spec2Isabelle
  imports Complex_Main "HOL-Library.Word"
begin

section \<open>Data model of the upload server (backend/server.js, backend/database.js)\<close>

text \<open>
  The two MongoDB collections are lists of documents in insertion order. Numbers are the
  integers of the interface (\<open>fileSize\<close>, chunk indices, millisecond timestamps), taken
  exactly: the rounding of IEEE doubles beyond \<open>2^53\<close> is not modelled. The upload
  directory is a map from the upload id to the bytes of the target file
  (\<open>path.join(UPLOAD_DIR, uploadId)\<close> is identified with the id), the scratch directory
  is an association list from multer's file name to the modification time and the bytes.
  The field \<open>trace\<close> is a ghost log of the store and file effects in the order in which
  the handlers perform them.
\<close>

type_synonym byte = "8 word"

datatype upload_status = UPLOADING | PROCESSING | COMPLETED | FAILED

datatype chunk_state = PENDING | RECEIVED

record upload_doc =
  doc_id :: string
  filename :: string
  total_size :: int
  total_chunks :: int
  status :: upload_status
  final_hash :: "string option"
  created_at :: int
  updated_at :: int

record chunk_doc =
  upload_id :: string
  chunk_index :: int
  chunk_status :: chunk_state
  received_at :: "int option"

datatype event =
    EvInsertUpload string
  | EvInsertChunks string nat
  | EvFileOpen string
  | EvFileWrite string "int option" nat
  | EvTempUnlink string
  | EvSetReceived string "int option"
  | EvSetStatus string upload_status
  | EvSetCompleted string string
  | EvFileUnlink string
  | EvDeleteUploads "string list"

record server_state =
  uploads :: "upload_doc list"
  chunks :: "chunk_doc list"
  upload_dir :: "string \<rightharpoonup> byte list"
  temp_dir :: "(string \<times> int \<times> byte list) list"
  trace :: "event list"

datatype response =
    Json400
  | Json404
  | Json500
  | InitOk string "int list" upload_status
  | ChunkAlready
  | ChunkOk bool nat nat

definition CHUNK_SIZE :: int where
  "CHUNK_SIZE = 5 * 1024 * 1024"

subsection \<open>Store operations (the MongoDB calls the handlers make)\<close>

definition findOne_upload :: "string \<Rightarrow> upload_doc list \<Rightarrow> upload_doc option" where
  "findOne_upload uid us = find (\<lambda>u. doc_id u = uid) us"

definition find_chunks :: "string \<Rightarrow> chunk_doc list \<Rightarrow> chunk_doc list" where
  "find_chunks uid cs = filter (\<lambda>c. upload_id c = uid) cs"

text \<open>A chunk index that is \<open>NaN\<close> (\<open>None\<close>) matches no stored document: the stored
  indices are the loop counters of \<open>init\<close>.\<close>

definition findOne_chunk :: "string \<Rightarrow> int option \<Rightarrow> chunk_doc list \<Rightarrow> chunk_doc option" where
  "findOne_chunk uid idx cs =
     (case idx of
        None \<Rightarrow> None
      | Some i \<Rightarrow> find (\<lambda>c. upload_id c = uid \<and> chunk_index c = i) cs)"

fun update_first :: "('a \<Rightarrow> bool) \<Rightarrow> ('a \<Rightarrow> 'a) \<Rightarrow> 'a list \<Rightarrow> 'a list" where
  "update_first P f [] = []"
| "update_first P f (x # xs) = (if P x then f x # xs else x # update_first P f xs)"

definition updateOne_chunk_received ::
  "string \<Rightarrow> int option \<Rightarrow> int \<Rightarrow> chunk_doc list \<Rightarrow> chunk_doc list" where
  "updateOne_chunk_received uid idx now cs =
     (case idx of
        None \<Rightarrow> cs
      | Some i \<Rightarrow>
          update_first (\<lambda>c. upload_id c = uid \<and> chunk_index c = i)
            (\<lambda>c. c\<lparr>chunk_status := RECEIVED, received_at := Some now\<rparr>) cs)"

definition updateOne_upload ::
  "string \<Rightarrow> (upload_doc \<Rightarrow> upload_doc) \<Rightarrow> upload_doc list \<Rightarrow> upload_doc list" where
  "updateOne_upload uid f us = update_first (\<lambda>u. doc_id u = uid) f us"

text \<open>\<open>database.js\<close> declares a unique index on \<open>uploads.id\<close> and a unique compound index
  on \<open>chunks.(upload_id, chunk_index)\<close>: an insert that would duplicate a key throws.
  \<open>insertMany\<close> is ordered: it inserts the documents one by one and stops at the first
  duplicate, keeping what it has inserted.\<close>

definition insertOne_upload :: "upload_doc \<Rightarrow> upload_doc list \<Rightarrow> upload_doc list option" where
  "insertOne_upload d us =
     (if \<exists>u \<in> set us. doc_id u = doc_id d then None else Some (us @ [d]))"

fun insertMany_chunks :: "chunk_doc list \<Rightarrow> chunk_doc list \<Rightarrow> bool \<times> chunk_doc list" where
  "insertMany_chunks [] cs = (True, cs)"
| "insertMany_chunks (d # ds) cs =
     (if \<exists>c \<in> set cs. upload_id c = upload_id d \<and> chunk_index c = chunk_index d
      then (False, cs)
      else insertMany_chunks ds (cs @ [d]))"

subsection \<open>POST /api/upload/init\<close>

text \<open>The body fields as the interface declares them: a string, a string and an integer,
  each possibly absent. \<open>!x\<close> holds of an absent field, of the empty string and of the
  number zero.\<close>

record init_request =
  req_filename :: "string option"
  req_fileSize :: "int option"
  req_uploadId :: "string option"

definition falsy_str :: "string option \<Rightarrow> bool" where
  "falsy_str x = (case x of None \<Rightarrow> True | Some s \<Rightarrow> s = [])"

definition falsy_num :: "int option \<Rightarrow> bool" where
  "falsy_num x = (case x of None \<Rightarrow> True | Some n \<Rightarrow> n = 0)"

definition ceil_div :: "int \<Rightarrow> int \<Rightarrow> int" where
  "ceil_div a b = \<lceil>real_of_int a / real_of_int b\<rceil>"

text \<open>The loop \<open>for (let i = 0; i < totalChunks; i++) chunkDocs.push(...)\<close>.\<close>

function build_chunkDocs :: "string \<Rightarrow> int \<Rightarrow> int \<Rightarrow> chunk_doc list \<Rightarrow> chunk_doc list" where
  "build_chunkDocs uid i totalChunks chunkDocs =
     (if i < totalChunks
      then build_chunkDocs uid (i + 1) totalChunks
             (chunkDocs @ [\<lparr>upload_id = uid, chunk_index = i,
                            chunk_status = PENDING, received_at = None\<rparr>])
      else chunkDocs)"
  by pat_completeness auto
termination
  by (relation "measure (\<lambda>(uid, i, totalChunks, chunkDocs). nat (totalChunks - i))") auto

declare build_chunkDocs.simps [simp del]

definition init_handler :: "int \<Rightarrow> init_request \<Rightarrow> server_state \<Rightarrow> response \<times> server_state" where
  "init_handler now req st =
     (if falsy_str (req_filename req) \<or> falsy_num (req_fileSize req)
         \<or> falsy_str (req_uploadId req)
      then (Json400, st)
      else
        let filename = the (req_filename req);
            fileSize = the (req_fileSize req);
            uploadId = the (req_uploadId req);
            totalChunks = ceil_div fileSize CHUNK_SIZE
        in case findOne_upload uploadId (uploads st) of
             Some existing \<Rightarrow>
               (InitOk uploadId
                  (map chunk_index
                     (filter (\<lambda>c. chunk_status c = RECEIVED)
                        (find_chunks uploadId (chunks st))))
                  (status existing),
                st)
           | None \<Rightarrow>
               (case insertOne_upload
                       \<lparr>doc_id = uploadId, filename = filename, total_size = fileSize,
                        total_chunks = totalChunks, status = UPLOADING, final_hash = None,
                        created_at = now, updated_at = now\<rparr> (uploads st) of
                  None \<Rightarrow> (Json500, st)
                | Some us \<Rightarrow>
                    let st1 = st\<lparr>uploads := us, trace := trace st @ [EvInsertUpload uploadId]\<rparr>;
                        chunkDocs = build_chunkDocs uploadId 0 totalChunks []
                    in if length chunkDocs > 0
                       then (case insertMany_chunks chunkDocs (chunks st1) of
                               (ok, cs) \<Rightarrow>
                                 let st2 = st1\<lparr>chunks := cs,
                                             trace := trace st1 @
                                               [EvInsertChunks uploadId
                                                  (length cs - length (chunks st1))]\<rparr>
                                 in if ok then (InitOk uploadId [] UPLOADING, st2)
                                    else (Json500, st2))
                       else (InitOk uploadId [] UPLOADING, st1)))"

subsection \<open>POST /api/upload/chunk\<close>

text \<open>The multipart request after multer: \<open>req.file?.path\<close> is the name of the scratch
  file holding the payload (absent when the request has no \<open>chunk\<close> part), the other
  parts are text fields.\<close>

record chunk_request =
  req_file :: "string option"
  chunk_uploadId :: "string option"
  chunk_chunkIndex :: "string option"
  chunk_totalChunks :: "string option"

text \<open>\<open>parseInt(s)\<close> with no radix: leading white space is skipped, then an optional
  sign, then an optional \<open>0x\<close> prefix selecting base 16, then the longest run of digits;
  no digit gives \<open>NaN\<close>, modelled as \<open>None\<close>.\<close>

definition is_ws :: "char \<Rightarrow> bool" where
  "is_ws c = (c \<in> set [CHR '' '', CHR 0x09, CHR 0x0A, CHR 0x0B, CHR 0x0C, CHR 0x0D])"

definition digit_val :: "char \<Rightarrow> nat option" where
  "digit_val c =
     (let n = (of_char c :: nat)
      in if 48 \<le> n \<and> n \<le> 57 then Some (n - 48)
         else if 97 \<le> n \<and> n \<le> 102 then Some (n - 87)
         else if 65 \<le> n \<and> n \<le> 70 then Some (n - 55)
         else None)"

definition is_digit :: "nat \<Rightarrow> char \<Rightarrow> bool" where
  "is_digit radix c = (case digit_val c of None \<Rightarrow> False | Some d \<Rightarrow> d < radix)"

definition parseInt :: "string \<Rightarrow> int option" where
  "parseInt s =
     (let s1 = dropWhile is_ws s;
          (neg, s2) = (case s1 of
                         c # r \<Rightarrow> if c = CHR ''-'' then (True, r)
                                  else if c = CHR ''+'' then (False, r)
                                  else (False, s1)
                       | [] \<Rightarrow> (False, s1));
          (radix, s3) = (case s2 of
                           c # d # r \<Rightarrow>
                             if c = CHR ''0'' \<and> (d = CHR ''x'' \<or> d = CHR ''X'')
                             then (16, r) else (10, s2)
                         | _ \<Rightarrow> (10, s2));
          ds = takeWhile (is_digit radix) s3;
          v = foldl (\<lambda>a c. a * int radix + int (the (digit_val c))) 0 ds
      in if ds = [] then None else Some (if neg then - v else v))"

text \<open>\<open>fs.unlink(tempPath)\<close> throws when the scratch file does not exist.\<close>

definition unlink_temp :: "string \<Rightarrow> server_state \<Rightarrow> server_state option" where
  "unlink_temp p st =
     (if p \<in> fst ` set (temp_dir st)
      then Some (st\<lparr>temp_dir := filter (\<lambda>e. fst e \<noteq> p) (temp_dir st),
                    trace := trace st @ [EvTempUnlink p]\<rparr>)
      else None)"

text \<open>The \<open>catch\<close> block of the chunk handler: unlink the scratch file, ignoring a
  failure, and answer 500.\<close>

definition chunk_catch :: "string option \<Rightarrow> server_state \<Rightarrow> response \<times> server_state" where
  "chunk_catch tempPath st =
     (Json500,
      case tempPath of
        None \<Rightarrow> st
      | Some p \<Rightarrow> (case unlink_temp p st of None \<Rightarrow> st | Some st' \<Rightarrow> st'))"

text \<open>\<open>if (tempPath) await fs.unlink(tempPath); return res...\<close> inside the \<open>try\<close>.\<close>

definition unlink_and_reply ::
  "string option \<Rightarrow> response \<Rightarrow> server_state \<Rightarrow> response \<times> server_state" where
  "unlink_and_reply tempPath r st =
     (case tempPath of
        None \<Rightarrow> (r, st)
      | Some p \<Rightarrow>
          (case unlink_temp p st of
             None \<Rightarrow> chunk_catch tempPath st
           | Some st' \<Rightarrow> (r, st')))"

definition readFile_temp :: "string option \<Rightarrow> server_state \<Rightarrow> byte list option" where
  "readFile_temp tempPath st =
     (case tempPath of
        None \<Rightarrow> None
      | Some p \<Rightarrow> map_option snd (map_of (temp_dir st) p))"

text \<open>A positional write into a file that is sparse where nothing was written: the gap
  up to the offset reads as zero bytes. An empty buffer writes nothing.\<close>

definition pwrite :: "byte list \<Rightarrow> byte list \<Rightarrow> nat \<Rightarrow> byte list" where
  "pwrite old data off =
     (if data = [] then old
      else take off old @ replicate (off - length old) 0 @ data
           @ drop (off + length data) old)"

text \<open>\<open>Number.MAX_SAFE_INTEGER\<close>, the largest integer that Node accepts as a file
  position.\<close>

definition MAX_SAFE_INTEGER :: int where
  "MAX_SAFE_INTEGER = 2 ^ 53 - 1"

text \<open>\<open>fileHandle.write(chunkData, 0, chunkData.length, offset)\<close> on a handle that was
  just opened: a position that is an integer from 0 to \<open>MAX_SAFE_INTEGER\<close> is the offset
  of the write; any other position (negative, \<open>NaN\<close>, above \<open>MAX_SAFE_INTEGER\<close>) is
  dropped and the write goes to the handle's current position, which is the start of the
  file.\<close>

definition file_write :: "byte list \<Rightarrow> byte list \<Rightarrow> int option \<Rightarrow> byte list" where
  "file_write old data position =
     (case position of
        None \<Rightarrow> pwrite old data 0
      | Some n \<Rightarrow>
          if 0 \<le> n \<and> n \<le> MAX_SAFE_INTEGER then pwrite old data (nat n)
          else pwrite old data 0)"

text \<open>\<open>fs.open(targetPath, 'r+').catch(() => fs.open(targetPath, 'w'))\<close>: an existing file
  is opened as it is, a missing one is created empty.\<close>

definition open_target :: "string \<Rightarrow> server_state \<Rightarrow> server_state" where
  "open_target targetPath st =
     st\<lparr>upload_dir :=
          (case upload_dir st targetPath of
             None \<Rightarrow> (upload_dir st)(targetPath \<mapsto> [])
           | Some b \<Rightarrow> upload_dir st),
        trace := trace st @ [EvFileOpen targetPath]\<rparr>"

text \<open>What the disk does to this request: both opens fail, the write fails after the
  open, or nothing fails.\<close>

datatype disk = DiskOk | OpenFails | WriteFails

subsection \<open>finalizeUpload\<close>

text \<open>\<open>calculateFileHash\<close> streams the file through SHA-256; the digest function is a
  parameter \<open>sha256\<close> of the model, and the stream's error on a missing file is the
  branch that sets \<open>FAILED\<close>. \<open>peekZipContents\<close> only feeds the log output and its
  failure is swallowed, so it does not appear.\<close>

definition set_processing :: "int \<Rightarrow> string \<Rightarrow> server_state \<Rightarrow> server_state" where
  "set_processing now uploadId st =
     st\<lparr>uploads := updateOne_upload uploadId
                      (\<lambda>u. u\<lparr>status := PROCESSING, updated_at := now\<rparr>) (uploads st),
        trace := trace st @ [EvSetStatus uploadId PROCESSING]\<rparr>"

definition set_completed :: "int \<Rightarrow> string \<Rightarrow> string \<Rightarrow> server_state \<Rightarrow> server_state" where
  "set_completed now uploadId hash st =
     st\<lparr>uploads := updateOne_upload uploadId
                      (\<lambda>u. u\<lparr>status := COMPLETED, final_hash := Some hash, updated_at := now\<rparr>)
                      (uploads st),
        trace := trace st @ [EvSetCompleted uploadId hash]\<rparr>"

definition set_failed :: "int \<Rightarrow> string \<Rightarrow> server_state \<Rightarrow> server_state" where
  "set_failed now uploadId st =
     st\<lparr>uploads := updateOne_upload uploadId
                      (\<lambda>u. u\<lparr>status := FAILED, updated_at := now\<rparr>) (uploads st),
        trace := trace st @ [EvSetStatus uploadId FAILED]\<rparr>"

definition finalizeUpload ::
  "(byte list \<Rightarrow> string) \<Rightarrow> int \<Rightarrow> string \<Rightarrow> string \<Rightarrow> string \<Rightarrow> server_state
     \<Rightarrow> server_state" where
  "finalizeUpload sha256 now uploadId filePath fname st =
     (case findOne_upload uploadId (uploads st) of
        None \<Rightarrow> st
      | Some uploadDoc \<Rightarrow>
          if status uploadDoc \<noteq> UPLOADING then st
          else
            let st1 = set_processing now uploadId st
            in (case upload_dir st1 filePath of
                  None \<Rightarrow> set_failed now uploadId st1
                | Some bytes \<Rightarrow> set_completed now uploadId (sha256 bytes) st1))"

text \<open>The handler from \<open>fs.readFile(tempPath)\<close> to the response: read the scratch file,
  open the target, write at the offset, unlink the scratch file, mark the chunk record,
  count, finalize when complete.\<close>

definition write_and_mark ::
  "(byte list \<Rightarrow> string) \<Rightarrow> int \<Rightarrow> disk \<Rightarrow> string option \<Rightarrow> string \<Rightarrow> int option
     \<Rightarrow> upload_doc \<Rightarrow> server_state \<Rightarrow> response \<times> server_state" where
  "write_and_mark sha256 now dsk tempPath uploadId chunkIdx uploadDoc st =
     (let targetPath = uploadId;
          offset = map_option (\<lambda>i. i * CHUNK_SIZE) chunkIdx
      in case readFile_temp tempPath st of
           None \<Rightarrow> chunk_catch tempPath st
         | Some chunkData \<Rightarrow>
             if dsk = OpenFails then chunk_catch tempPath st
             else
               let st1 = open_target targetPath st
               in if dsk = WriteFails then chunk_catch tempPath st1
                  else
                    let st2 = st1\<lparr>upload_dir :=
                                 (upload_dir st1)(targetPath \<mapsto>
                                   file_write (the (upload_dir st1 targetPath))
                                     chunkData offset),
                               trace := trace st1 @
                                 [EvFileWrite targetPath offset (length chunkData)]\<rparr>
                    in (case unlink_temp (the tempPath) st2 of
                          None \<Rightarrow> chunk_catch tempPath st2
                        | Some st3 \<Rightarrow>
                            let st4 = st3\<lparr>chunks :=
                                         updateOne_chunk_received uploadId chunkIdx now
                                           (chunks st3),
                                       trace := trace st3 @
                                         [EvSetReceived uploadId chunkIdx]\<rparr>;
                                allChunks = find_chunks uploadId (chunks st4);
                                totalCount = length allChunks;
                                receivedCount =
                                  length (filter (\<lambda>c. chunk_status c = RECEIVED) allChunks);
                                isComplete = (receivedCount = totalCount);
                                st5 = (if isComplete
                                       then finalizeUpload sha256 now uploadId targetPath
                                              (filename uploadDoc) st4
                                       else st4)
                            in (ChunkOk isComplete receivedCount totalCount, st5)))"

definition chunk_handler ::
  "(byte list \<Rightarrow> string) \<Rightarrow> int \<Rightarrow> disk \<Rightarrow> chunk_request \<Rightarrow> server_state
     \<Rightarrow> response \<times> server_state" where
  "chunk_handler sha256 now dsk req st =
     (let tempPath = req_file req
      in if falsy_str (chunk_uploadId req) \<or> chunk_chunkIndex req = None
            \<or> falsy_str (chunk_totalChunks req)
         then unlink_and_reply tempPath Json400 st
         else
           let uploadId = the (chunk_uploadId req);
               chunkIdx = parseInt (the (chunk_chunkIndex req));
               total = parseInt (the (chunk_totalChunks req))
           in (case findOne_upload uploadId (uploads st) of
                 None \<Rightarrow> unlink_and_reply tempPath Json404 st
               | Some uploadDoc \<Rightarrow>
                   let existingChunk = findOne_chunk uploadId chunkIdx (chunks st)
                   in if (case existingChunk of
                            None \<Rightarrow> False
                          | Some c \<Rightarrow> chunk_status c = RECEIVED)
                      then unlink_and_reply tempPath ChunkAlready st
                      else write_and_mark sha256 now dsk tempPath uploadId chunkIdx
                             uploadDoc st))"

subsection \<open>cleanupOldUploads\<close>

text \<open>One sweep at time \<open>now\<close> (the clock is read once for the whole sweep). Unlinking a
  target file ignores every error; a scratch file is removed when it is older than an
  hour.\<close>

definition is_old :: "int \<Rightarrow> upload_doc \<Rightarrow> bool" where
  "is_old cutoffTime u =
     ((status u = UPLOADING \<or> status u = FAILED) \<and> created_at u < cutoffTime)"

fun unlink_targets :: "upload_doc list \<Rightarrow> server_state \<Rightarrow> server_state" where
  "unlink_targets [] st = st"
| "unlink_targets (uploadDoc # rest) st =
     unlink_targets rest
       (st\<lparr>upload_dir := (upload_dir st)(doc_id uploadDoc := None),
           trace := trace st @ [EvFileUnlink (doc_id uploadDoc)]\<rparr>)"

definition cleanupOldUploads :: "int \<Rightarrow> server_state \<Rightarrow> server_state" where
  "cleanupOldUploads now st =
     (let cutoffTime = now - 24 * 60 * 60 * 1000;
          oldUploads = filter (is_old cutoffTime) (uploads st);
          st1 = unlink_targets oldUploads st;
          st2 = st1\<lparr>uploads := filter (\<lambda>u. \<not> is_old cutoffTime u) (uploads st1),
                     trace := trace st1 @
                       [EvDeleteUploads (map doc_id (filter (is_old cutoffTime) (uploads st1)))]\<rparr>
      in st2\<lparr>temp_dir := filter (\<lambda>(name, mtime, bytes). \<not> (now - mtime > 60 * 60 * 1000))
                            (temp_dir st2)\<rparr>)"

subsection \<open>Concurrent runs of finalizeUpload\<close>

text \<open>Request handlers run on one event loop and give up control at every \<open>await\<close>.
  A worker inside \<open>finalizeUpload\<close> is therefore at one of the points below, and a step
  runs it from one \<open>await\<close> to the next: the \<open>findOne\<close> with the status test that
  follows it, the \<open>updateOne\<close> to \<open>PROCESSING\<close>, the hash of the file, the \<open>updateOne\<close>
  to \<open>COMPLETED\<close> with the hash, or the \<open>updateOne\<close> to \<open>FAILED\<close> of the \<open>catch\<close>
  block. A schedule is the list of worker numbers in the order in which they step.\<close>

datatype fin_pc =
    AtFindOne
  | AtSetProcessing
  | AtHash
  | AtSetCompleted string
  | AtSetFailed
  | Returned

definition fin_step ::
  "(byte list \<Rightarrow> string) \<Rightarrow> int \<Rightarrow> string \<Rightarrow> string \<Rightarrow> fin_pc \<times> server_state
     \<Rightarrow> fin_pc \<times> server_state" where
  "fin_step sha256 now uploadId filePath cfg =
     (case cfg of
        (AtFindOne, st) \<Rightarrow>
          (case findOne_upload uploadId (uploads st) of
             None \<Rightarrow> (Returned, st)
           | Some uploadDoc \<Rightarrow>
               if status uploadDoc \<noteq> UPLOADING then (Returned, st)
               else (AtSetProcessing, st))
      | (AtSetProcessing, st) \<Rightarrow> (AtHash, set_processing now uploadId st)
      | (AtHash, st) \<Rightarrow>
          (case upload_dir st filePath of
             None \<Rightarrow> (AtSetFailed, st)
           | Some bytes \<Rightarrow> (AtSetCompleted (sha256 bytes), st))
      | (AtSetCompleted hash, st) \<Rightarrow> (Returned, set_completed now uploadId hash st)
      | (AtSetFailed, st) \<Rightarrow> (Returned, set_failed now uploadId st)
      | (Returned, st) \<Rightarrow> (Returned, st))"

fun run_workers ::
  "(byte list \<Rightarrow> string) \<Rightarrow> int \<Rightarrow> string \<Rightarrow> string \<Rightarrow> nat list
     \<Rightarrow> fin_pc list \<times> server_state \<Rightarrow> fin_pc list \<times> server_state" where
  "run_workers sha256 now uploadId filePath [] cfg = cfg"
| "run_workers sha256 now uploadId filePath (w # schedule) (pcs, st) =
     (if w < length pcs
      then (case fin_step sha256 now uploadId filePath (pcs ! w, st) of
              (pc', st') \<Rightarrow>
                run_workers sha256 now uploadId filePath schedule (pcs[w := pc'], st'))
      else run_workers sha256 now uploadId filePath schedule (pcs, st))"

text \<open>The number of times a \<open>final_hash\<close> was written to a session, read off the log.\<close>

definition final_hash_writes :: "string \<Rightarrow> event list \<Rightarrow> nat" where
  "final_hash_writes uploadId evs =
     length (filter (\<lambda>e. case e of EvSetCompleted u h \<Rightarrow> u = uploadId | _ \<Rightarrow> False) evs)"

subsection \<open>Properties of logs\<close>



subsection \<open>The chunk size the specification expects\<close>

text \<open>Following the words of the specification (section 4.2), not the code: \<open>CHUNK_SIZE\<close>
  for every index but the last, \<open>total_size - (total_chunks - 1) * CHUNK_SIZE\<close> for the
  last.\<close>

definition spec_expected_chunk_size :: "upload_doc \<Rightarrow> int \<Rightarrow> int" where
  "spec_expected_chunk_size d i =
     (if i = total_chunks d - 1 then total_size d - (total_chunks d - 1) * CHUNK_SIZE
      else CHUNK_SIZE)"

subsection \<open>Concrete scenarios\<close>

definition empty_state :: server_state where
  "empty_state = \<lparr>uploads = [], chunks = [], upload_dir = Map.empty, temp_dir = [], trace = []\<rparr>"

definition init_req_3chunks :: init_request where
  "init_req_3chunks = \<lparr>req_filename = Some ''a.zip'', req_fileSize = Some 10485761,
                        req_uploadId = Some ''u1''\<rparr>"

text \<open>A session of ten bytes (one chunk), nothing received yet, and a request whose
  scratch file \<open>t1\<close> holds three bytes.\<close>

definition session_u1 :: upload_doc where
  "session_u1 = \<lparr>doc_id = ''u1'', filename = ''a.zip'', total_size = 10, total_chunks = 1,
                  status = UPLOADING, final_hash = None, created_at = 0, updated_at = 0\<rparr>"

definition pending_state :: server_state where
  "pending_state =
     \<lparr>uploads = [session_u1],
      chunks = [\<lparr>upload_id = ''u1'', chunk_index = 0, chunk_status = PENDING,
                 received_at = None\<rparr>],
      upload_dir = Map.empty,
      temp_dir = [(''t1'', 100, [1, 2, 3])],
      trace = []\<rparr>"

definition chunk_req :: "string \<Rightarrow> chunk_request" where
  "chunk_req idx = \<lparr>req_file = Some ''t1'', chunk_uploadId = Some ''u1'',
                     chunk_chunkIndex = Some idx, chunk_totalChunks = Some ''1''\<rparr>"

text \<open>The same session after its only chunk arrived and finalization ran, with a new
  request's scratch file.\<close>

definition completed_state :: server_state where
  "completed_state =
     \<lparr>uploads = [session_u1\<lparr>total_size := 3, status := COMPLETED, final_hash := Some ''h'',
                              updated_at := 7\<rparr>],
      chunks = [\<lparr>upload_id = ''u1'', chunk_index = 0, chunk_status = RECEIVED,
                 received_at = Some 7\<rparr>],
      upload_dir = [''u1'' \<mapsto> [1, 2, 3]],
      temp_dir = [(''t1'', 100, [9])],
      trace = []\<rparr>"

text \<open>All chunks received, the session still \<open>UPLOADING\<close>: two workers are about to call
  \<open>finalizeUpload\<close>.\<close>

definition all_received_state :: server_state where
  "all_received_state =
     \<lparr>uploads = [session_u1\<lparr>total_size := 3\<rparr>],
      chunks = [\<lparr>upload_id = ''u1'', chunk_index = 0, chunk_status = RECEIVED,
                 received_at = Some 7\<rparr>],
      upload_dir = [''u1'' \<mapsto> [1, 2, 3]],
      temp_dir = [],
      trace = []\<rparr>"

text \<open>Session \<open>u2\<close> was created at time 0 and has two of its three chunks; session \<open>u3\<close>
  of the same age is \<open>COMPLETED\<close>. The sweep runs 25 hours later.\<close>

definition janitor_state :: server_state where
  "janitor_state =
     \<lparr>uploads = [\<lparr>doc_id = ''u2'', filename = ''b.zip'', total_size = 10485761,
                  total_chunks = 3, status = UPLOADING, final_hash = None,
                  created_at = 0, updated_at = 0\<rparr>,
                 \<lparr>doc_id = ''u3'', filename = ''c.zip'', total_size = 3,
                  total_chunks = 1, status = COMPLETED, final_hash = Some ''h'',
                  created_at = 0, updated_at = 9\<rparr>],
      chunks = [\<lparr>upload_id = ''u2'', chunk_index = 0, chunk_status = RECEIVED,
                 received_at = Some 5\<rparr>,
                \<lparr>upload_id = ''u2'', chunk_index = 1, chunk_status = RECEIVED,
                 received_at = Some 6\<rparr>,
                \<lparr>upload_id = ''u2'', chunk_index = 2, chunk_status = PENDING,
                 received_at = None\<rparr>,
                \<lparr>upload_id = ''u3'', chunk_index = 0, chunk_status = RECEIVED,
                 received_at = Some 9\<rparr>],
      upload_dir = [''u2'' \<mapsto> [4, 5], ''u3'' \<mapsto> [1, 2, 3]],
      temp_dir = [],
      trace = []\<rparr>"

definition hours25 :: int where
  "hours25 = 25 * 60 * 60 * 1000"

text \<open>The state after the write, the unlink of the scratch file and the mark.\<close>

definition marked_state ::
  "int \<Rightarrow> string \<Rightarrow> string \<Rightarrow> int option \<Rightarrow> byte list \<Rightarrow> server_state \<Rightarrow> server_state" where
  "marked_state now p uid k data st =
     st\<lparr>upload_dir := (upload_dir st)(uid \<mapsto>
           file_write (case upload_dir st uid of None \<Rightarrow> [] | Some old \<Rightarrow> old) data
             (map_option (\<lambda>i. i * CHUNK_SIZE) k)),
        temp_dir := filter (\<lambda>e. fst e \<noteq> p) (temp_dir st),
        chunks := updateOne_chunk_received uid k now (chunks st),
        trace := trace st @ [EvFileOpen uid,
                   EvFileWrite uid (map_option (\<lambda>i. i * CHUNK_SIZE) k) (length data),
                   EvTempUnlink p, EvSetReceived uid k]\<rparr>"

text \<open>A stand-in for the digest function in the scenarios.\<close>

definition digest_h :: "byte list \<Rightarrow> string" where
  "digest_h bytes = ''h''"

section \<open>Session creation\<close>

lemma ceil_div_code: "ceil_div a b = - ((- a) div b)"
  unfolding ceil_div_def by (rule ceiling_divide_eq_div)

lemma ceil_div_bounds:
  assumes "0 < b"
  shows "b * (ceil_div a b - 1) < a" and "a \<le> b * ceil_div a b"
proof -
  have pos: "0 < real_of_int b" using assms by simp
  have "real_of_int (ceil_div a b) - 1 < real_of_int a / real_of_int b"
    unfolding ceil_div_def by linarith
  then have "(real_of_int (ceil_div a b) - 1) * real_of_int b < real_of_int a"
    using pos by (simp add: pos_less_divide_eq)
  then have "real_of_int ((ceil_div a b - 1) * b) < real_of_int a" by simp
  then show "b * (ceil_div a b - 1) < a" by (simp only: of_int_less_iff mult.commute)
  have "real_of_int a / real_of_int b \<le> real_of_int (ceil_div a b)"
    unfolding ceil_div_def by linarith
  then have "real_of_int a \<le> real_of_int (ceil_div a b) * real_of_int b"
    using pos by (simp add: pos_divide_le_eq)
  then have "real_of_int a \<le> real_of_int (ceil_div a b * b)" by simp
  then show "a \<le> b * ceil_div a b" by (simp only: of_int_le_iff mult.commute)
qed

text \<open>The loop of \<open>init\<close> pushes one \<open>PENDING\<close> document for each index from \<open>i\<close> to
  \<open>totalChunks - 1\<close>, in order.\<close>

lemma build_chunkDocs_eq:
  "build_chunkDocs uid i t acc =
     acc @ map (\<lambda>k. \<lparr>upload_id = uid, chunk_index = k, chunk_status = PENDING,
                       received_at = None\<rparr>) [i..t - 1]"
proof (induction uid i t acc rule: build_chunkDocs.induct)
  case (1 uid i t acc)
  show ?case
  proof (cases "i < t")
    case True
    then have "[i..t - 1] = i # [i + 1..t - 1]"
      by (simp add: upto_rec1)
    with True "1.IH" show ?thesis
      by (subst build_chunkDocs.simps) simp
  next
    case False
    then show ?thesis
      by (subst build_chunkDocs.simps) simp
  qed
qed

lemma insertMany_chunks_ok:
  "insertMany_chunks ds cs = (True, cs') \<Longrightarrow> cs' = cs @ ds"
proof (induction ds arbitrary: cs)
  case Nil
  then show ?case by simp
next
  case (Cons d ds)
  from Cons.prems have "insertMany_chunks ds (cs @ [d]) = (True, cs')"
    by (simp split: if_splits)
  then have "cs' = (cs @ [d]) @ ds" by (rule Cons.IH)
  then show ?case by simp
qed

lemmas init_eval = init_handler_def falsy_str_def falsy_num_def ceil_div_code CHUNK_SIZE_def
  findOne_upload_def insertOne_upload_def build_chunkDocs_eq find_chunks_def Let_def
  upto_rec1

text \<open>
  Claim C8. A session created by a successful \<open>init\<close> with a declared size \<open>n > 0\<close>
  stores \<open>total_chunks = ceil(n / CHUNK_SIZE)\<close> with \<open>CHUNK_SIZE = 5 * 1024 * 1024\<close>, in
  exact arithmetic: \<open>total_chunks\<close> is the integer with
  \<open>CHUNK_SIZE * (total_chunks - 1) < n \<le> CHUNK_SIZE * total_chunks\<close>. The call appends to
  the chunk collection exactly the \<open>PENDING\<close> records with the indices
  \<open>0 .. total_chunks - 1\<close> of that upload, and nothing else.
\<close>

theorem init_total_chunks:
  assumes uid: "req_uploadId req = Some uid"
    and size: "req_fileSize req = Some n"
    and pos: "0 < n"
    and fresh: "findOne_upload uid (uploads st) = None"
    and ok: "init_handler now req st = (InitOk u xs s, st')"
  shows "\<exists>d. uploads st' = uploads st @ [d] \<and> doc_id d = uid \<and> total_size d = n
           \<and> status d = UPLOADING
           \<and> total_chunks d = \<lceil>real_of_int n / real_of_int (5 * 1024 * 1024)\<rceil>
           \<and> CHUNK_SIZE * (total_chunks d - 1) < n \<and> n \<le> CHUNK_SIZE * total_chunks d
           \<and> chunks st' = chunks st @
                 map (\<lambda>i. \<lparr>upload_id = uid, chunk_index = i, chunk_status = PENDING,
                              received_at = None\<rparr>) [0..total_chunks d - 1]"
proof -
  let ?tc = "ceil_div n CHUNK_SIZE"
  let ?d = "\<lparr>doc_id = uid, filename = the (req_filename req), total_size = n,
             total_chunks = ?tc, status = UPLOADING, final_hash = None,
             created_at = now, updated_at = now\<rparr>"
  let ?docs = "map (\<lambda>i. \<lparr>upload_id = uid, chunk_index = i, chunk_status = PENDING,
                              received_at = None\<rparr>) [0..?tc - 1]"
  have cpos: "0 < CHUNK_SIZE" by (simp add: CHUNK_SIZE_def)
  have b1: "CHUNK_SIZE * (?tc - 1) < n" and b2: "n \<le> CHUNK_SIZE * ?tc"
    using ceil_div_bounds [OF cpos] by blast+
  have tcpos: "1 \<le> ?tc"
  proof (rule ccontr)
    assume "\<not> 1 \<le> ?tc"
    then have "?tc \<le> 0" by simp
    then have "CHUNK_SIZE * ?tc \<le> 0" using cpos by (simp add: mult_le_0_iff)
    with b2 pos show False by simp
  qed
  have nonempty: "?docs \<noteq> []" using tcpos by simp
  have valid: "\<not> (falsy_str (req_filename req) \<or> falsy_num (req_fileSize req)
                  \<or> falsy_str (req_uploadId req))"
    using ok by (auto simp: init_handler_def)
  obtain us where ins: "insertOne_upload ?d (uploads st) = Some us"
    using ok valid uid size fresh
    by (cases "insertOne_upload ?d (uploads st)") (auto simp: init_handler_def Let_def)
  then have us: "us = uploads st @ [?d]"
    by (auto simp: insertOne_upload_def split: if_splits)
  obtain b cs where im: "insertMany_chunks ?docs (chunks st) = (b, cs)"
    by (cases "insertMany_chunks ?docs (chunks st)")
  from ok valid uid size fresh ins im nonempty
  have res: "b \<and> st' = st\<lparr>uploads := us, trace := trace st @ [EvInsertUpload uid]\<rparr>
               \<lparr>chunks := cs,
                trace := trace st @ [EvInsertUpload uid] @
                  [EvInsertChunks uid (length cs - length (chunks st))]\<rparr>"
    by (auto simp: init_handler_def Let_def build_chunkDocs_eq split: if_splits)
  then have "insertMany_chunks ?docs (chunks st) = (True, cs)"
    using im by simp
  then have cs: "cs = chunks st @ ?docs"
    by (rule insertMany_chunks_ok)
  have tc: "?tc = \<lceil>real_of_int n / real_of_int (5 * 1024 * 1024)\<rceil>"
    by (simp add: ceil_div_def CHUNK_SIZE_def)
  show ?thesis
    apply (rule exI [of _ ?d])
    using res us cs b1 b2 tc by simp
qed

theorem init_total_chunks_witness:
  "fst (init_handler 5 init_req_3chunks empty_state) = InitOk ''u1'' [] UPLOADING
   \<and> (\<exists>d. uploads (snd (init_handler 5 init_req_3chunks empty_state)) = [d]
          \<and> total_chunks d = 3
          \<and> map chunk_index (chunks (snd (init_handler 5 init_req_3chunks empty_state)))
              = [0, 1, 2])"
proof -
  obtain st' where ev:
    "init_handler 5 init_req_3chunks empty_state = (InitOk ''u1'' [] UPLOADING, st')"
    by (simp add: init_eval init_req_3chunks_def empty_state_def)
  have "\<exists>d. uploads st' = uploads empty_state @ [d] \<and> doc_id d = ''u1''
           \<and> total_size d = 10485761 \<and> status d = UPLOADING
           \<and> total_chunks d = \<lceil>real_of_int 10485761 / real_of_int (5 * 1024 * 1024)\<rceil>
           \<and> CHUNK_SIZE * (total_chunks d - 1) < 10485761
           \<and> 10485761 \<le> CHUNK_SIZE * total_chunks d
           \<and> chunks st' = chunks empty_state @
                 map (\<lambda>i. \<lparr>upload_id = ''u1'', chunk_index = i, chunk_status = PENDING,
                              received_at = None\<rparr>) [0..total_chunks d - 1]"
    by (rule init_total_chunks [OF _ _ _ _ ev])
       (simp_all add: init_req_3chunks_def empty_state_def findOne_upload_def)
  then obtain d where d: "uploads st' = uploads empty_state @ [d]"
      "total_chunks d = \<lceil>real_of_int 10485761 / real_of_int (5 * 1024 * 1024)\<rceil>"
      "chunks st' = chunks empty_state @
                 map (\<lambda>i. \<lparr>upload_id = ''u1'', chunk_index = i, chunk_status = PENDING,
                              received_at = None\<rparr>) [0..total_chunks d - 1]"
    by blast
  have tc: "total_chunks d = 3" using d(2) by simp
  show ?thesis using ev d(1) d(3) tc by (simp add: empty_state_def upto_rec1)
qed

text \<open>
  Claim C4, as amended. An \<open>init\<close> request in which \<open>uploadId\<close> or \<open>filename\<close> is missing
  or empty, or in which \<open>fileSize\<close> is missing or zero, is answered with status 400 and
  leaves the store, the files and the log as they were. (The handler tests the fields
  for presence only; a negative \<open>fileSize\<close> passes the test.)
\<close>

theorem init_rejects_missing:
  "falsy_str (req_uploadId req) \<or> falsy_str (req_filename req)
     \<or> req_fileSize req = None \<or> req_fileSize req = Some 0
   \<Longrightarrow> init_handler now req st = (Json400, st)"
  by (auto simp: init_handler_def falsy_num_def)

theorem init_rejects_missing_witness:
  "init_handler 5 \<lparr>req_filename = Some ''a.zip'', req_fileSize = Some 0,
                      req_uploadId = Some ''u1''\<rparr> empty_state = (Json400, empty_state)"
  using init_rejects_missing
    [of "\<lparr>req_filename = Some ''a.zip'', req_fileSize = Some 0, req_uploadId = Some ''u1''\<rparr>"
        5 empty_state]
  by simp

text \<open>
  Claim C4 as stated fails: a request with \<open>fileSize = -5\<close> is answered with success and
  creates a session with \<open>total_size = -5\<close> and \<open>total_chunks = 0\<close>.
\<close>

theorem init_negative_size_counterexample:
  "init_handler 5 \<lparr>req_filename = Some ''a.zip'', req_fileSize = Some (- 5),
                      req_uploadId = Some ''u1''\<rparr> empty_state
   = (InitOk ''u1'' [] UPLOADING,
      empty_state\<lparr>uploads := [\<lparr>doc_id = ''u1'', filename = ''a.zip'', total_size = - 5,
                          total_chunks = 0, status = UPLOADING, final_hash = None,
                          created_at = 5, updated_at = 5\<rparr>],
          trace := [EvInsertUpload ''u1'']\<rparr>)"
  by (simp add: init_eval empty_state_def)

text \<open>
  Claim C6. For an existing session, an \<open>init\<close> call with the same id (and with the three
  fields present) returns that id, the session's current status and \<open>uploadedChunks\<close> whose
  elements are exactly the indices of the chunk records of that upload with status
  \<open>RECEIVED\<close>; it changes nothing, so that a repeated call returns the same again.
\<close>

theorem init_idempotent:
  assumes ex: "findOne_upload uid (uploads st) = Some d"
    and uid: "req_uploadId req = Some uid"
    and valid: "\<not> falsy_str (req_uploadId req)" "\<not> falsy_str (req_filename req)"
               "\<not> falsy_num (req_fileSize req)"
  shows "\<exists>uploadedChunks.
           init_handler now req st = (InitOk uid uploadedChunks (status d), st)
           \<and> doc_id d = uid
           \<and> set uploadedChunks =
               {i. \<exists>c \<in> set (chunks st).
                      upload_id c = uid \<and> chunk_index c = i \<and> chunk_status c = RECEIVED}
           \<and> init_handler now' req (snd (init_handler now req st)) = init_handler now req st"
proof -
  have id: "doc_id d = uid"
    using ex by (auto simp: findOne_upload_def find_Some_iff)
  have r: "init_handler t req st =
          (InitOk uid (map chunk_index (filter (\<lambda>c. chunk_status c = RECEIVED)
                         (find_chunks uid (chunks st)))) (status d), st)" for t
    using ex uid valid by (simp add: init_handler_def Let_def)
  show ?thesis
    apply (rule exI [of _ "map chunk_index (filter (\<lambda>c. chunk_status c = RECEIVED)
                         (find_chunks uid (chunks st)))"])
    using id r by (auto simp: find_chunks_def)
qed

theorem init_idempotent_witness:
  "\<exists>uploadedChunks.
     init_handler 7 \<lparr>req_filename = Some ''b.zip'', req_fileSize = Some 10485761,
                       req_uploadId = Some ''u2''\<rparr> janitor_state
       = (InitOk ''u2'' uploadedChunks UPLOADING, janitor_state)
     \<and> set uploadedChunks = {0, 1}"
proof -
  let ?req = "\<lparr>req_filename = Some ''b.zip'', req_fileSize = Some 10485761,
               req_uploadId = Some ''u2''\<rparr>"
  let ?d = "hd (uploads janitor_state)"
  have ex: "findOne_upload ''u2'' (uploads janitor_state) = Some ?d"
    by (simp add: findOne_upload_def janitor_state_def)
  have st: "status ?d = UPLOADING" by (simp add: janitor_state_def)
  have "{i. \<exists>c \<in> set (chunks janitor_state).
            upload_id c = ''u2'' \<and> chunk_index c = i \<and> chunk_status c = RECEIVED} = {0, 1}"
    by (auto simp: janitor_state_def)
  with init_idempotent [OF ex, of ?req 7 7] st show ?thesis
    by (simp add: falsy_str_def falsy_num_def) blast
qed

section \<open>Chunk reception\<close>

lemmas chunk_eval = chunk_handler_def write_and_mark_def Let_def falsy_str_def parseInt_def
  is_ws_def is_digit_def digit_val_def findOne_upload_def findOne_chunk_def find_chunks_def
  unlink_and_reply_def chunk_catch_def unlink_temp_def readFile_temp_def open_target_def
  file_write_def MAX_SAFE_INTEGER_def updateOne_chunk_received_def finalizeUpload_def
  set_processing_def
  set_completed_def set_failed_def updateOne_upload_def CHUNK_SIZE_def


lemma update_first_match:
  "find P xs = Some c \<Longrightarrow> (\<And>x. P (f x) = P x) \<Longrightarrow> find P (update_first P f xs) = Some (f c)"
  by (induction xs) (auto split: if_splits)

lemma finalizeUpload_frame:
  "chunks (finalizeUpload sha256 now uid path fname st) = chunks st"
  "upload_dir (finalizeUpload sha256 now uid path fname st) = upload_dir st"
  "temp_dir (finalizeUpload sha256 now uid path fname st) = temp_dir st"
  by (simp_all add: finalizeUpload_def set_processing_def set_completed_def set_failed_def
        Let_def split: option.splits)


lemma write_and_mark_ok:
  assumes tmp: "map_of (temp_dir st) p = Some (m, data)"
  shows "write_and_mark sha256 now DiskOk (Some p) uid k d st =
           (let st4 = marked_state now p uid k data st;
                allChunks = find_chunks uid (chunks st4);
                totalCount = length allChunks;
                receivedCount = length (filter (\<lambda>c. chunk_status c = RECEIVED) allChunks)
            in (ChunkOk (receivedCount = totalCount) receivedCount totalCount,
                if receivedCount = totalCount
                then finalizeUpload sha256 now uid uid (filename d) st4 else st4))"
proof -
  have mem: "p \<in> fst ` set (temp_dir st)"
    using tmp by (metis domI dom_map_of_conv_image_fst)
  show ?thesis
    using tmp mem
    by (cases "upload_dir st uid")
       (simp_all add: write_and_mark_def readFile_temp_def open_target_def unlink_temp_def
          marked_state_def Let_def)
qed





lemma readFile_temp_Some:
  "readFile_temp tp st = Some data \<Longrightarrow> \<exists>p m. tp = Some p \<and> map_of (temp_dir st) p = Some (m, data)"
  by (auto simp: readFile_temp_def split: option.splits)



lemma unlink_and_reply_resp:
  "fst (unlink_and_reply tp r st) = r \<or> fst (unlink_and_reply tp r st) = Json500"
  by (simp add: unlink_and_reply_def chunk_catch_def split: option.splits)

lemma chunk_handler_cases:
  "(\<exists>r. (r = Json400 \<or> r = Json404 \<or> r = ChunkAlready)
        \<and> chunk_handler sha256 now dsk req st = unlink_and_reply (req_file req) r st)
   \<or> (\<exists>d. findOne_upload (the (chunk_uploadId req)) (uploads st) = Some d
          \<and> chunk_handler sha256 now dsk req st
              = write_and_mark sha256 now dsk (req_file req) (the (chunk_uploadId req))
                  (parseInt (the (chunk_chunkIndex req))) d st)"
  by (auto simp: chunk_handler_def Let_def split: option.splits)



lemma length_pwrite:
  "data \<noteq> [] \<Longrightarrow> length (pwrite old data off) = max (length old) (off + length data)"
  by (auto simp: pwrite_def)

lemma chunk_handler_write_path:
  assumes sess: "findOne_upload uid (uploads st) = Some d"
    and fields: "chunk_uploadId req = Some uid" "uid \<noteq> []" "chunk_chunkIndex req = Some s"
      "chunk_totalChunks req = Some t" "t \<noteq> []"
    and rec: "\<forall>c. findOne_chunk uid (parseInt s) (chunks st) = Some c \<longrightarrow> chunk_status c \<noteq> RECEIVED"
    and scratch: "req_file req = Some p" "map_of (temp_dir st) p = Some (m, data)"
  shows "chunk_handler sha256 now DiskOk req st =
           (let st4 = marked_state now p uid (parseInt s) data st;
                allChunks = find_chunks uid (chunks st4);
                totalCount = length allChunks;
                receivedCount = length (filter (\<lambda>c. chunk_status c = RECEIVED) allChunks)
            in (ChunkOk (receivedCount = totalCount) receivedCount totalCount,
                if receivedCount = totalCount
                then finalizeUpload sha256 now uid uid (filename d) st4 else st4))"
proof -
  have "chunk_handler sha256 now DiskOk req st
          = write_and_mark sha256 now DiskOk (Some p) uid (parseInt s) d st"
    using sess fields rec scratch(1)
    by (auto simp: chunk_handler_def Let_def falsy_str_def split: option.splits)
  then show ?thesis
    by (simp only: write_and_mark_ok [OF scratch(2)])
qed




text \<open>
  Claim C2, as amended. The handler has no length check. For a call on an existing session
  whose payload length differs from the expected chunk size for the index, with the chunk
  record \<open>PENDING\<close>, the scratch file present and the disk working: the call returns
  success, the payload is written into the target file at offset
  \<open>chunk_index * CHUNK_SIZE\<close>, and the chunk record becomes \<open>RECEIVED\<close>. (An offset above
  \<open>MAX_SAFE_INTEGER\<close>, which only a session of more than \<open>2^53\<close> bytes has, is dropped
  by the write, and the payload lands at offset 0.)
\<close>

theorem wrong_length_chunk_accepted:
  assumes sess: "findOne_upload uid (uploads st) = Some d"
    and fields: "chunk_uploadId req = Some uid" "uid \<noteq> []" "chunk_chunkIndex req = Some s"
      "chunk_totalChunks req = Some t" "t \<noteq> []"
    and idx: "parseInt s = Some k" "0 \<le> k"
    and pending: "findOne_chunk uid (Some k) (chunks st) = Some c" "chunk_status c = PENDING"
    and scratch: "req_file req = Some p" "map_of (temp_dir st) p = Some (m, data)"
    and wrong: "int (length data) \<noteq> spec_expected_chunk_size d k"
  shows "(\<exists>b r n. fst (chunk_handler sha256 now DiskOk req st) = ChunkOk b r n)
         \<and> upload_dir (snd (chunk_handler sha256 now DiskOk req st)) uid
             = Some (pwrite (case upload_dir st uid of None \<Rightarrow> [] | Some old \<Rightarrow> old) data
                       (if k * CHUNK_SIZE \<le> MAX_SAFE_INTEGER then nat (k * CHUNK_SIZE)
                        else 0))
         \<and> (\<exists>c'. findOne_chunk uid (Some k) (chunks (snd (chunk_handler sha256 now DiskOk req st)))
                    = Some c'
                 \<and> chunk_status c' = RECEIVED)"
proof -
  have rec: "\<forall>c. findOne_chunk uid (parseInt s) (chunks st) = Some c \<longrightarrow> chunk_status c \<noteq> RECEIVED"
    using idx pending by simp
  let ?P = "\<lambda>c. upload_id c = uid \<and> chunk_index c = k"
  let ?f = "\<lambda>c. c\<lparr>chunk_status := RECEIVED, received_at := Some now\<rparr>"
  have "find ?P (chunks st) = Some c"
    using pending(1) by (simp add: findOne_chunk_def)
  then have "find ?P (update_first ?P ?f (chunks st)) = Some (?f c)"
    by (rule update_first_match) simp
  then have marked: "findOne_chunk uid (Some k) (chunks (marked_state now p uid (parseInt s) data st))
                       = Some (?f c)"
    using idx by (simp add: marked_state_def updateOne_chunk_received_def findOne_chunk_def)
  have "0 \<le> k * CHUNK_SIZE"
    using idx(2) by (simp add: CHUNK_SIZE_def)
  then have target: "upload_dir (marked_state now p uid (parseInt s) data st) uid
                = Some (pwrite (case upload_dir st uid of None \<Rightarrow> [] | Some old \<Rightarrow> old) data
                          (if k * CHUNK_SIZE \<le> MAX_SAFE_INTEGER then nat (k * CHUNK_SIZE)
                           else 0))"
    using idx by (simp add: marked_state_def file_write_def)
  show ?thesis
    unfolding chunk_handler_write_path [OF sess fields rec scratch]
    using marked target by (simp add: Let_def finalizeUpload_frame)
qed

theorem wrong_length_chunk_accepted_witness:
  "upload_dir (snd (chunk_handler digest_h 7 DiskOk (chunk_req ''0'') pending_state)) ''u1''
       = Some (pwrite [] [1, 2, 3] 0)
   \<and> (\<exists>c'. findOne_chunk ''u1'' (Some 0)
              (chunks (snd (chunk_handler digest_h 7 DiskOk (chunk_req ''0'') pending_state)))
              = Some c'
           \<and> chunk_status c' = RECEIVED)"
proof -
  have p: "parseInt ''0'' = Some 0"
    by (simp add: parseInt_def is_ws_def is_digit_def digit_val_def)
  have sess: "findOne_upload ''u1'' (uploads pending_state) = Some session_u1"
    by (simp add: findOne_upload_def pending_state_def session_u1_def)
  have rec: "findOne_chunk ''u1'' (Some 0) (chunks pending_state)
               = Some \<lparr>upload_id = ''u1'', chunk_index = 0, chunk_status = PENDING,
                       received_at = None\<rparr>"
    by (simp add: findOne_chunk_def pending_state_def)
  have wrong: "int (length [1, 2, 3 :: byte]) \<noteq> spec_expected_chunk_size session_u1 0"
    by (simp add: spec_expected_chunk_size_def session_u1_def)
  from wrong_length_chunk_accepted [OF sess _ _ _ _ _ p _ rec _ _ _ wrong,
         of "chunk_req ''0''" "''1''" "''t1''" 100 digest_h 7]
  show ?thesis
    by (simp add: chunk_req_def pending_state_def MAX_SAFE_INTEGER_def)
qed

text \<open>
  Claim C2 as stated fails: the session expects ten bytes for chunk 0, the payload has
  three; the call succeeds, creates the target file with the three bytes and marks the
  chunk \<open>RECEIVED\<close>.
\<close>

theorem wrong_length_chunk_counterexample:
  "int (length [1, 2, 3 :: byte]) \<noteq> spec_expected_chunk_size session_u1 0
   \<and> readFile_temp (req_file (chunk_req ''0'')) pending_state = Some [1, 2, 3]
   \<and> upload_dir pending_state ''u1'' = None
   \<and> map chunk_status (chunks pending_state) = [PENDING]
   \<and> fst (chunk_handler digest_h 7 DiskOk (chunk_req ''0'') pending_state) = ChunkOk True 1 1
   \<and> upload_dir (snd (chunk_handler digest_h 7 DiskOk (chunk_req ''0'') pending_state)) ''u1''
       = Some [1, 2, 3]
   \<and> map chunk_status (chunks (snd (chunk_handler digest_h 7 DiskOk (chunk_req ''0'')
                                       pending_state))) = [RECEIVED]"
  by (simp add: chunk_eval pwrite_def chunk_req_def pending_state_def session_u1_def
        spec_expected_chunk_size_def)

text \<open>
  Claim C3, as amended. The handler does not look at the session's status. For a call on an
  existing session whose status is not \<open>UPLOADING\<close> and whose chunk record for the index is
  \<open>RECEIVED\<close>, the call returns success with "Chunk already uploaded", the scratch file is
  removed, and the session records, the chunk records and the target files are left as
  they were.
\<close>

theorem finalized_session_already_uploaded:
  assumes sess: "findOne_upload uid (uploads st) = Some d"
    and fin: "status d \<noteq> UPLOADING"
    and fields: "chunk_uploadId req = Some uid" "uid \<noteq> []" "chunk_chunkIndex req = Some s"
      "chunk_totalChunks req = Some t" "t \<noteq> []"
    and received: "findOne_chunk uid (parseInt s) (chunks st) = Some c" "chunk_status c = RECEIVED"
    and scratch: "req_file req = Some p" "p \<in> fst ` set (temp_dir st)"
  shows "fst (chunk_handler sha256 now dsk req st) = ChunkAlready
         \<and> uploads (snd (chunk_handler sha256 now dsk req st)) = uploads st
         \<and> chunks (snd (chunk_handler sha256 now dsk req st)) = chunks st
         \<and> upload_dir (snd (chunk_handler sha256 now dsk req st)) = upload_dir st
         \<and> map_of (temp_dir (snd (chunk_handler sha256 now dsk req st))) p = None"
proof -
  have "chunk_handler sha256 now dsk req st = unlink_and_reply (Some p) ChunkAlready st"
    using sess fields received scratch(1)
    by (simp add: chunk_handler_def Let_def falsy_str_def)
  moreover have "map_of (filter (\<lambda>e. fst e \<noteq> p) (temp_dir st)) p = None"
    by (auto simp: map_of_eq_None_iff)
  ultimately show ?thesis
    using scratch(2) by (simp add: unlink_and_reply_def unlink_temp_def)
qed

theorem finalized_session_already_uploaded_witness:
  "fst (chunk_handler digest_h 7 DiskOk (chunk_req ''0'') completed_state) = ChunkAlready
   \<and> chunks (snd (chunk_handler digest_h 7 DiskOk (chunk_req ''0'') completed_state))
       = chunks completed_state
   \<and> upload_dir (snd (chunk_handler digest_h 7 DiskOk (chunk_req ''0'') completed_state))
       = upload_dir completed_state"
proof -
  have p: "parseInt ''0'' = Some 0"
    by (simp add: parseInt_def is_ws_def is_digit_def digit_val_def)
  let ?d = "hd (uploads completed_state)"
  have sess: "findOne_upload ''u1'' (uploads completed_state) = Some ?d"
    by (simp add: findOne_upload_def completed_state_def session_u1_def)
  have fin: "status ?d \<noteq> UPLOADING"
    by (simp add: completed_state_def)
  have rec: "findOne_chunk ''u1'' (parseInt ''0'') (chunks completed_state)
               = Some \<lparr>upload_id = ''u1'', chunk_index = 0, chunk_status = RECEIVED,
                       received_at = Some 7\<rparr>"
    by (simp add: p findOne_chunk_def completed_state_def)
  from finalized_session_already_uploaded [OF sess fin _ _ _ _ _ rec,
         of "chunk_req ''0''" "''1''" "''t1''" digest_h 7 DiskOk]
  show ?thesis
    by (simp add: chunk_req_def completed_state_def)
qed

text \<open>
  Claim C3 as stated fails: on a \<open>COMPLETED\<close> session with one chunk, a call with chunk
  index 1 (no record) does not answer "already finalized"; it writes the payload at offset
  \<open>CHUNK_SIZE\<close>, which grows the file from 3 to 5242881 bytes.
\<close>

theorem finalized_session_write_counterexample:
  "map status (uploads completed_state) = [COMPLETED]
   \<and> upload_dir completed_state ''u1'' = Some [1, 2, 3]
   \<and> fst (chunk_handler digest_h 8 DiskOk (chunk_req ''1'') completed_state) = ChunkOk True 1 1
   \<and> upload_dir (snd (chunk_handler digest_h 8 DiskOk (chunk_req ''1'') completed_state)) ''u1''
       = Some (pwrite [1, 2, 3] [9] 5242880)
   \<and> length (pwrite [1, 2, 3] [9 :: byte] 5242880) = 5242881"
  by (simp add: chunk_eval length_pwrite chunk_req_def completed_state_def session_u1_def)

text \<open>
  Claim C9. Two calls of the chunk handler that differ only in the (non-empty) value of
  the \<open>totalChunks\<close> field give the same response and the same state. In a success
  response, \<open>totalChunks\<close> is the number of chunk records stored for the upload id,
  \<open>receivedChunks\<close> the number of those with status \<open>RECEIVED\<close>, and \<open>isComplete\<close> (the
  decision to call \<open>finalizeUpload\<close>) is the equality of the two.
\<close>

theorem totalChunks_field_unused:
  assumes "t1 \<noteq> []" and "t2 \<noteq> []"
  shows "chunk_handler sha256 now dsk (req\<lparr>chunk_totalChunks := Some t1\<rparr>) st
           = chunk_handler sha256 now dsk (req\<lparr>chunk_totalChunks := Some t2\<rparr>) st
         \<and> (\<forall>b r n. fst (chunk_handler sha256 now dsk (req\<lparr>chunk_totalChunks := Some t1\<rparr>) st)
                       = ChunkOk b r n \<longrightarrow>
               n = length (find_chunks (the (chunk_uploadId req))
                     (chunks (snd (chunk_handler sha256 now dsk
                                     (req\<lparr>chunk_totalChunks := Some t1\<rparr>) st))))
               \<and> r = length (filter (\<lambda>c. chunk_status c = RECEIVED)
                       (find_chunks (the (chunk_uploadId req))
                          (chunks (snd (chunk_handler sha256 now dsk
                                          (req\<lparr>chunk_totalChunks := Some t1\<rparr>) st)))))
               \<and> b = (r = n))"
proof -
  let ?req = "req\<lparr>chunk_totalChunks := Some t1\<rparr>"
  let ?uid = "the (chunk_uploadId req)"
  have eq: "chunk_handler sha256 now dsk ?req st
           = chunk_handler sha256 now dsk (req\<lparr>chunk_totalChunks := Some t2\<rparr>) st"
    using assms by (simp add: chunk_handler_def Let_def falsy_str_def)
  have resp: "n = length (find_chunks ?uid (chunks (snd (chunk_handler sha256 now dsk ?req st))))
              \<and> r = length (filter (\<lambda>c. chunk_status c = RECEIVED)
                       (find_chunks ?uid (chunks (snd (chunk_handler sha256 now dsk ?req st)))))
              \<and> b = (r = n)"
    if ok: "fst (chunk_handler sha256 now dsk ?req st) = ChunkOk b r n" for b r n
  proof -
    have "\<not> (\<exists>r'. (r' = Json400 \<or> r' = Json404 \<or> r' = ChunkAlready)
        \<and> chunk_handler sha256 now dsk ?req st = unlink_and_reply (req_file ?req) r' st)"
    proof
      assume "\<exists>r'. (r' = Json400 \<or> r' = Json404 \<or> r' = ChunkAlready)
        \<and> chunk_handler sha256 now dsk ?req st = unlink_and_reply (req_file ?req) r' st"
      then obtain r' where r': "r' = Json400 \<or> r' = Json404 \<or> r' = ChunkAlready"
        and e: "chunk_handler sha256 now dsk ?req st = unlink_and_reply (req_file ?req) r' st"
        by blast
      from unlink_and_reply_resp [of "req_file ?req" r' st] r' ok
      show False unfolding e by auto
    qed
    with chunk_handler_cases [of sha256 now dsk ?req st]
    obtain d where w: "chunk_handler sha256 now dsk ?req st
              = write_and_mark sha256 now dsk (req_file req) ?uid
                  (parseInt (the (chunk_chunkIndex req))) d st"
      by auto
    have d1: "dsk = DiskOk"
      using ok unfolding w
      by (cases dsk) (auto simp: write_and_mark_def Let_def chunk_catch_def split: option.splits)
    obtain data where "readFile_temp (req_file req) st = Some data"
      using ok unfolding w
      by (cases "readFile_temp (req_file req) st")
         (auto simp: write_and_mark_def chunk_catch_def)
    then obtain p m where tp: "req_file req = Some p"
        and tmp: "map_of (temp_dir st) p = Some (m, data)"
      using readFile_temp_Some by blast
    have "chunk_handler sha256 now dsk ?req st
            = write_and_mark sha256 now DiskOk (Some p) ?uid
                (parseInt (the (chunk_chunkIndex req))) d st"
      using w d1 tp by simp
    then show ?thesis
      using ok by (auto simp: write_and_mark_ok [OF tmp] Let_def finalizeUpload_frame)
  qed
  from eq resp show ?thesis by blast
qed

theorem totalChunks_field_unused_witness:
  "chunk_handler digest_h 7 DiskOk ((chunk_req ''0'')\<lparr>chunk_totalChunks := Some ''1''\<rparr>)
       pending_state
     = chunk_handler digest_h 7 DiskOk ((chunk_req ''0'')\<lparr>chunk_totalChunks := Some ''999''\<rparr>)
         pending_state
   \<and> fst (chunk_handler digest_h 7 DiskOk ((chunk_req ''0'')\<lparr>chunk_totalChunks := Some ''999''\<rparr>)
            pending_state) = ChunkOk True 1 1"
proof -
  have ev: "fst (chunk_handler digest_h 7 DiskOk
                   ((chunk_req ''0'')\<lparr>chunk_totalChunks := Some ''1''\<rparr>) pending_state)
              = ChunkOk True 1 1"
    by (simp add: chunk_eval pwrite_def chunk_req_def pending_state_def session_u1_def)
  from totalChunks_field_unused [of "''1''" "''999''" digest_h 7 DiskOk "chunk_req ''0''"
         pending_state] ev
  show ?thesis by simp
qed

section \<open>Finalization under concurrency\<close>

text \<open>A worker that is never interrupted does what the sequential \<open>finalizeUpload\<close> does.\<close>

lemma run_alone_is_finalizeUpload:
  "snd (run_workers sha256 now uid path [0, 0, 0, 0] ([AtFindOne], st))
     = finalizeUpload sha256 now uid path fname st"
proof (cases "findOne_upload uid (uploads st)")
  case None
  then show ?thesis by (simp add: fin_step_def finalizeUpload_def)
next
  case (Some d)
  show ?thesis
  proof (cases "status d = UPLOADING")
    case False
    with Some show ?thesis by (simp add: fin_step_def finalizeUpload_def)
  next
    case True
    with Some show ?thesis
      by (cases "upload_dir st path")
         (simp_all add: fin_step_def finalizeUpload_def Let_def set_processing_def)
  qed
qed

lemmas fin_eval = fin_step_def findOne_upload_def set_processing_def set_completed_def
  set_failed_def updateOne_upload_def final_hash_writes_def

text \<open>
  Claim C1 fails on the code. \<open>finalizeUpload\<close> reads the session, tests the status it
  read, and then issues an unconditional \<open>updateOne\<close>: the test and the update are two
  steps, not one compare-and-set. With the only chunk record \<open>RECEIVED\<close> and two workers
  entering \<open>finalizeUpload\<close>, the schedule that alternates the workers lets both read
  \<open>UPLOADING\<close>; both set \<open>PROCESSING\<close>, both hash, and both write \<open>COMPLETED\<close> with a
  \<open>final_hash\<close>: two writes of \<open>final_hash\<close>. In the second schedule worker 0 finishes
  before worker 1 resumes, and the status goes \<open>PROCESSING\<close>, \<open>COMPLETED\<close>,
  \<open>PROCESSING\<close>, \<open>COMPLETED\<close>.
\<close>

theorem double_finalization:
  "map chunk_status (find_chunks ''u1'' (chunks all_received_state)) = [RECEIVED]
   \<and> fst (run_workers digest_h 9 ''u1'' ''u1'' [0, 1, 0, 1, 0, 1, 0, 1]
            ([AtFindOne, AtFindOne], all_received_state)) = [Returned, Returned]
   \<and> trace (snd (run_workers digest_h 9 ''u1'' ''u1'' [0, 1, 0, 1, 0, 1, 0, 1]
                   ([AtFindOne, AtFindOne], all_received_state)))
       = [EvSetStatus ''u1'' PROCESSING, EvSetStatus ''u1'' PROCESSING,
          EvSetCompleted ''u1'' ''h'', EvSetCompleted ''u1'' ''h'']
   \<and> final_hash_writes ''u1''
         (trace (snd (run_workers digest_h 9 ''u1'' ''u1'' [0, 1, 0, 1, 0, 1, 0, 1]
                        ([AtFindOne, AtFindOne], all_received_state)))) = 2
   \<and> trace (snd (run_workers digest_h 9 ''u1'' ''u1'' [0, 1, 0, 0, 0, 1, 1, 1]
                   ([AtFindOne, AtFindOne], all_received_state)))
       = [EvSetStatus ''u1'' PROCESSING, EvSetCompleted ''u1'' ''h'',
          EvSetStatus ''u1'' PROCESSING, EvSetCompleted ''u1'' ''h'']"
  by (simp add: fin_eval all_received_state_def session_u1_def digest_h_def find_chunks_def)

section \<open>The periodic sweep\<close>

lemma unlink_targets_effect:
  "uploads (unlink_targets ds st) = uploads st"
  "chunks (unlink_targets ds st) = chunks st"
  "temp_dir (unlink_targets ds st) = temp_dir st"
  "trace (unlink_targets ds st) = trace st @ map (\<lambda>d. EvFileUnlink (doc_id d)) ds"
  "upload_dir (unlink_targets ds st) p
     = (if p \<in> doc_id ` set ds then None else upload_dir st p)"
  by (induction ds arbitrary: st) auto

text \<open>What the sweep does to sessions and files.\<close>

lemma cleanup_sessions:
  fixes now :: int and st :: server_state
  defines "cutoff \<equiv> now - 24 * 60 * 60 * 1000"
  defines "st' \<equiv> cleanupOldUploads now st"
  shows "uploads st' = filter (\<lambda>u. \<not> is_old cutoff u) (uploads st)"
    and "\<forall>u \<in> set (uploads st). is_old cutoff u \<longrightarrow> upload_dir st' (doc_id u) = None"
    and "trace st' = trace st
           @ map (\<lambda>d. EvFileUnlink (doc_id d)) (filter (is_old cutoff) (uploads st))
           @ [EvDeleteUploads (map doc_id (filter (is_old cutoff) (uploads st)))]"
    and "filter (\<lambda>u. status u = COMPLETED \<or> status u = PROCESSING) (uploads st')
           = filter (\<lambda>u. status u = COMPLETED \<or> status u = PROCESSING) (uploads st)"
    and "chunks st' = chunks st"
proof -
  show "uploads st' = filter (\<lambda>u. \<not> is_old cutoff u) (uploads st)"
    by (simp add: st'_def cutoff_def cleanupOldUploads_def Let_def unlink_targets_effect)
  show "\<forall>u \<in> set (uploads st). is_old cutoff u \<longrightarrow> upload_dir st' (doc_id u) = None"
    by (simp add: st'_def cutoff_def cleanupOldUploads_def Let_def unlink_targets_effect)
  show "trace st' = trace st
           @ map (\<lambda>d. EvFileUnlink (doc_id d)) (filter (is_old cutoff) (uploads st))
           @ [EvDeleteUploads (map doc_id (filter (is_old cutoff) (uploads st)))]"
    by (simp add: st'_def cutoff_def cleanupOldUploads_def Let_def unlink_targets_effect)
  have "(\<not> is_old c u \<and> (status u = COMPLETED \<or> status u = PROCESSING))
          \<longleftrightarrow> (status u = COMPLETED \<or> status u = PROCESSING)" for u c
    by (auto simp: is_old_def)
  then show "filter (\<lambda>u. status u = COMPLETED \<or> status u = PROCESSING) (uploads st')
           = filter (\<lambda>u. status u = COMPLETED \<or> status u = PROCESSING) (uploads st)"
    by (simp add: st'_def cutoff_def cleanupOldUploads_def Let_def unlink_targets_effect)
  show "chunks st' = chunks st"
    by (simp add: st'_def cutoff_def cleanupOldUploads_def Let_def unlink_targets_effect)
qed

lemmas cleanup_eval = cleanupOldUploads_def is_old_def hours25_def janitor_state_def

text \<open>
  Claim C5 fails on the code. The sweep, run 25 hours after session \<open>u2\<close> was created,
  removes the target file and the session record of \<open>u2\<close> and leaves \<open>u3\<close> alone, but the
  three chunk records of \<open>u2\<close> stay in the chunk collection. A later \<open>init\<close> with the
  same id then runs into the unique index on \<open>(upload_id, chunk_index)\<close> and is answered
  with status 500.
\<close>

theorem janitor_leaves_chunk_records:
  "findOne_upload ''u2'' (uploads (cleanupOldUploads hours25 janitor_state)) = None
   \<and> upload_dir (cleanupOldUploads hours25 janitor_state) ''u2'' = None
   \<and> map chunk_index (find_chunks ''u2'' (chunks (cleanupOldUploads hours25 janitor_state)))
       = [0, 1, 2]
   \<and> map doc_id (uploads (cleanupOldUploads hours25 janitor_state)) = [''u3'']
   \<and> fst (init_handler hours25
            \<lparr>req_filename = Some ''b.zip'', req_fileSize = Some 10485761,
             req_uploadId = Some ''u2''\<rparr>
            (cleanupOldUploads hours25 janitor_state)) = Json500"
  by (simp add: cleanup_eval init_eval)

end
